theory Spec2Isabelle
  imports Complex_Main
begin

section \<open>Errors\<close>

text \<open>
  The Python exceptions that the modelled code can raise.  A function that can raise
  returns \<open>error + 'a\<close>, with \<open>Inl\<close> for the exception.  The message of
  \<open>InvalidParametersError\<close> is kept, since callers are told which constraint failed.
\<close>

datatype error =
    ValueError
  | TypeError
  | KeyError
  | IndexError
  | AttributeError
  | ImportError
  | NotImplementedError
  | InvalidParametersError string

section \<open>Restricted-key records (\<open>pydemic/__init__.py\<close>, \<open>pydemic/run.py\<close>)\<close>

text \<open>
  \<open>AttrDict\<close> and its subclasses differ only in the class attribute
  \<open>expected_kwargs\<close>.
\<close>

datatype record_class = AttrDict | AgeDistribution | PopulationModel | Parameters | Population

fun expected_kwargs :: "record_class \<Rightarrow> string set" where
  "expected_kwargs AttrDict = {}"
| "expected_kwargs AgeDistribution = {''bin_edges'', ''counts''}"
| "expected_kwargs PopulationModel =
     {''country'', ''cases'', ''populationServed'', ''hospitalBeds'', ''ICUBeds'',
      ''suspectedCasesToday'', ''importsPerDay''}"
| "expected_kwargs Parameters =
     {''imports_per_day'', ''time_delta_days'', ''isolatedFrac'', ''infectionRate'',
      ''incubtation_time'', ''recoveryRate'', ''hospitalizedRate'', ''dischargeRate'',
      ''criticalRate'', ''stabilizationRate'', ''deathRate'', ''overflowDeathRate'',
      ''ICU_beds''}"
| "expected_kwargs Population =
     {''infections'', ''time'', ''susceptible'', ''exposed'', ''hospitalized'',
      ''critical'', ''overflow''}"

text \<open>
  An instance is a \<open>dict\<close> (its entries) of a given class.  The constructor ends with
  \<open>self.__dict__ = self\<close>, so the attribute dictionary of the instance is the mapping
  itself and needs no field of its own.
\<close>

record 'v attr_dict =
  cls :: record_class
  entries :: "string \<rightharpoonup> 'v"

text \<open>
  \<open>dict.__init__(*args, **kwargs)\<close>: at most one positional argument, here a sequence
  of key/value pairs in which a later pair overwrites an earlier one; the keyword
  arguments are stored last and overwrite the positional entries.
\<close>

definition dict_init ::
  "(string \<times> 'v) list list \<Rightarrow> (string \<times> 'v) list \<Rightarrow> error + (string \<rightharpoonup> 'v)" where
  "dict_init args kwargs =
     (case args of
        [] \<Rightarrow> Inr (map_of kwargs)
      | [a] \<Rightarrow> Inr (map_of (rev a) ++ map_of kwargs)
      | _ \<Rightarrow> Inl TypeError)"

text \<open>
  \<open>AttrDict.__init__\<close>: raises \<open>ValueError\<close> unless
  \<open>self.expected_kwargs.issubset(set(kwargs.keys()))\<close>, then initialises the
  \<open>dict\<close>.
\<close>

definition AttrDict_init ::
  "record_class \<Rightarrow> (string \<times> 'v) list list \<Rightarrow> (string \<times> 'v) list \<Rightarrow> error + 'v attr_dict" where
  "AttrDict_init c args kwargs =
     (if \<not> expected_kwargs c \<subseteq> set (map fst kwargs) then Inl ValueError
      else case dict_init args kwargs of
             Inl e \<Rightarrow> Inl e
           | Inr d \<Rightarrow> Inr \<lparr>cls = c, entries = d\<rparr>)"

text \<open>Reading a mapping entry, \<open>obj[k]\<close>.\<close>

definition getitem :: "'v attr_dict \<Rightarrow> string \<Rightarrow> error + 'v" where
  "getitem obj k = (case entries obj k of None \<Rightarrow> Inl KeyError | Some v \<Rightarrow> Inr v)"

text \<open>
  Reading an attribute, \<open>obj.k\<close>.  Python looks first for a data descriptor of the
  type, then in the instance's \<open>__dict__\<close> (here the mapping itself), then for any
  other attribute of the type.  The data descriptors of a \<open>dict\<close> subclass without
  slots are the three names below; \<open>type_attr\<close> tells which further names the type
  defines (methods of \<open>dict\<close>, \<open>expected_kwargs\<close>, ...).
\<close>

datatype 'v attr = FromDict 'v | FromType

definition data_descriptors :: "string list" where
  "data_descriptors = [''__class__'', ''__dict__'', ''__weakref__'']"

definition getattr_obj :: "(string \<Rightarrow> bool) \<Rightarrow> 'v attr_dict \<Rightarrow> string \<Rightarrow> error + 'v attr" where
  "getattr_obj type_attr obj k =
     (if k \<in> set data_descriptors then Inr FromType
      else case entries obj k of
             Some v \<Rightarrow> Inr (FromDict v)
           | None \<Rightarrow> if type_attr k then Inr FromType else Inl AttributeError)"

section \<open>Numbers and arrays\<close>

text \<open>
  Python and NumPy floats are modelled by the reals: rounding, overflow and the
  propagation of \<open>nan\<close> are outside the model.  The one non-finite value that the
  code names itself, \<open>-np.inf\<close>, is a value of its own.
\<close>

datatype pyfloat = Fin real | PosInf | NegInf | NaN

text \<open>
  A NumPy array of dimension zero or one.  A binary operation broadcasts: a scalar
  against anything, two arrays of equal length, or an array of length one against
  any array; other shapes raise \<open>ValueError\<close>.
\<close>

datatype ndarray = Scalar real | Array "real list"

fun np_map :: "(real \<Rightarrow> real) \<Rightarrow> ndarray \<Rightarrow> ndarray" where
  "np_map f (Scalar x) = Scalar (f x)"
| "np_map f (Array xs) = Array (map f xs)"

fun broadcast2 :: "(real \<Rightarrow> real \<Rightarrow> real) \<Rightarrow> ndarray \<Rightarrow> ndarray \<Rightarrow> error + ndarray" where
  "broadcast2 f (Scalar x) (Scalar y) = Inr (Scalar (f x y))"
| "broadcast2 f (Scalar x) (Array ys) = Inr (Array (map (f x) ys))"
| "broadcast2 f (Array xs) (Scalar y) = Inr (Array (map (\<lambda>x. f x y) xs))"
| "broadcast2 f (Array xs) (Array ys) =
     (if length xs = length ys then Inr (Array (map2 f xs ys))
      else if length xs = 1 then Inr (Array (map (f (hd xs)) ys))
      else if length ys = 1 then Inr (Array (map (\<lambda>x. f x (hd ys)) xs))
      else Inl ValueError)"

fun np_sum :: "ndarray \<Rightarrow> real" where
  "np_sum (Scalar x) = x"
| "np_sum (Array xs) = sum_list xs"

fun elems :: "ndarray \<Rightarrow> real list" where
  "elems (Scalar x) = [x]"
| "elems (Array xs) = xs"

section \<open>Likelihood estimation (\<open>pydemic/sampling.py\<close>)\<close>

record SampleParameter =
  name :: string
  bounds :: "real \<times> real"
  guess :: "real option"
  uncertainty :: "real option"

text \<open>
  \<open>l2_log_norm(a, b) = -1/2 * np.sum(np.power(np.log(a)-np.log(b), 2.))\<close>.
  On positive entries \<open>np.log\<close> is \<open>ln\<close>; the power with exponent \<open>2.\<close> is the
  square.
\<close>

definition l2_log_norm :: "ndarray \<Rightarrow> ndarray \<Rightarrow> error + real" where
  "l2_log_norm a b =
     (case broadcast2 (-) (np_map ln a) (np_map ln b) of
        Inl e \<Rightarrow> Inl e
      | Inr d \<Rightarrow> Inr (- 1 / 2 * np_sum (np_map (\<lambda>x. x ^ 2) d)))"

text \<open>
  The estimator.  \<open>get_log_likelihood\<close> is the method that subclasses supply; it is
  a parameter of the model, and \<open>get_log_likelihood_base\<close> is the one of the base
  class.
\<close>

record 'd LikelihoodEstimatorBase =
  fit_parameters :: "SampleParameter list"
  fit_names :: "string list"
  fixed_values :: "(string \<times> real) list"
  data :: 'd
  norm_f :: "ndarray \<Rightarrow> ndarray \<Rightarrow> error + real"

definition LikelihoodEstimatorBase_init ::
  "SampleParameter list \<Rightarrow> (string \<times> real) list \<Rightarrow> 'd
     \<Rightarrow> (ndarray \<Rightarrow> ndarray \<Rightarrow> error + real) option \<Rightarrow> 'd LikelihoodEstimatorBase" where
  "LikelihoodEstimatorBase_init pars fixed dat nrm =
     \<lparr>fit_parameters = pars,
      fit_names = map name pars,
      fixed_values = fixed,
      data = dat,
      norm_f = (case nrm of None \<Rightarrow> l2_log_norm | Some f \<Rightarrow> f)\<rparr>"

text \<open>The loop of \<open>check_within_bounds\<close> over \<open>zip(self.fit_parameters, theta)\<close>.\<close>

fun within_bounds_loop :: "(SampleParameter \<times> real) list \<Rightarrow> bool" where
  "within_bounds_loop [] = True"
| "within_bounds_loop ((par, v) # rest) =
     (if \<not> (fst (bounds par) \<le> v \<and> v \<le> snd (bounds par)) then False
      else within_bounds_loop rest)"

definition check_within_bounds :: "'d LikelihoodEstimatorBase \<Rightarrow> real list \<Rightarrow> bool" where
  "check_within_bounds est theta = within_bounds_loop (zip (fit_parameters est) theta)"

text \<open>\<open>dict(pairs)\<close>: a later pair overwrites an earlier one with the same key.\<close>

definition dict_of :: "('k \<times> 'v) list \<Rightarrow> ('k \<rightharpoonup> 'v)" where
  "dict_of pairs = map_of (rev pairs)"

definition get_log_likelihood_base :: "(string \<rightharpoonup> real) \<Rightarrow> error + pyfloat" where
  "get_log_likelihood_base parameters = Inl NotImplementedError"

definition call_estimator ::
  "((string \<rightharpoonup> real) \<Rightarrow> error + pyfloat) \<Rightarrow> 'd LikelihoodEstimatorBase \<Rightarrow> real list
     \<Rightarrow> error + pyfloat" where
  "call_estimator get_log_likelihood est theta =
     (if \<not> check_within_bounds est theta then Inr NegInf
      else get_log_likelihood (dict_of (zip (fit_names est) theta)))"

section \<open>Helpers for code that can raise\<close>

fun ebind :: "error + 'a \<Rightarrow> ('a \<Rightarrow> error + 'b) \<Rightarrow> error + 'b" where
  "ebind (Inl e) f = Inl e"
| "ebind (Inr x) f = f x"

text \<open>Evaluating a list of results from left to right; the first exception wins.\<close>

fun those_err :: "(error + 'a) list \<Rightarrow> error + 'a list" where
  "those_err [] = Inr []"
| "those_err (Inl e # rest) = Inl e"
| "those_err (Inr x # rest) = ebind (those_err rest) (\<lambda>xs. Inr (x # xs))"

definition index :: "'a list \<Rightarrow> nat \<Rightarrow> error + 'a" where
  "index xs i = (if i < length xs then Inr (xs ! i) else Inl IndexError)"

definition lookup :: "('k \<rightharpoonup> 'v) \<Rightarrow> 'k \<Rightarrow> error + 'v" where
  "lookup m k = (case m k of None \<Rightarrow> Inl KeyError | Some v \<Rightarrow> Inr v)"

text \<open>Reading an attribute that exists only once some method has set it.\<close>

definition attr_set :: "'a option \<Rightarrow> error + 'a" where
  "attr_set a = (case a of None \<Rightarrow> Inl AttributeError | Some v \<Rightarrow> Inr v)"

text \<open>
  \<open>from module import name\<close>, for a module that is not a package: the name must be
  bound at the top level of the module.
\<close>

definition import_from :: "string list \<Rightarrow> string \<Rightarrow> error + unit" where
  "import_from names nm = (if nm \<in> set names then Inr () else Inl ImportError)"

text \<open>
  The names of the module \<open>pydemic/sampling.py\<close>: the attributes that every module
  has, and the names that the file binds at its top level.
\<close>

definition sampling_module :: "string list" where
  "sampling_module =
     [''__name__'', ''__doc__'', ''__package__'', ''__loader__'', ''__spec__'',
      ''__file__'', ''__cached__'', ''__builtins__'',
      ''__copyright__'', ''__license__'', ''np'', ''SampleParameter'', ''l2_log_norm'',
      ''LikelihoodEstimatorBase'']"

section \<open>The renewal-equation simulation (\<open>pydemic/models/seirpp.py\<close>)\<close>

text \<open>
  The result (and working state) of a run: the times and, for every compartment, a
  two-dimensional array with one row per age group and one column per time.  The
  source calls the two attributes \<open>t\<close> and \<open>y\<close>.
\<close>

record SimulationResult =
  t_arr :: "real list"
  y_arr :: "string \<rightharpoonup> real list list"

text \<open>
  The simulation object.  \<open>total_population\<close> and \<open>population\<close> exist once
  \<open>get_y0\<close> has run, \<open>serial_pdf\<close> once \<open>__call__\<close> has; the delay distribution
  \<open>serial_dist\<close> is an object of the module \<open>pydemic.distributions\<close>, which is
  outside the modelled files and whose import at the head of \<open>seirpp.py\<close> is taken
  to succeed.
\<close>

record 'dist NonMarkovianSEIRSimulationBase =
  mitigation :: "real \<Rightarrow> real"
  serial_dist :: 'dist
  seasonal_forcing_amp :: real
  peak_day :: real
  r0 :: real
  total_population :: "real option"
  population :: "real list option"
  serial_pdf :: "real list option"

definition seasonal_forcing :: "('dist, 'm) NonMarkovianSEIRSimulationBase_scheme \<Rightarrow> real \<Rightarrow> real" where
  "seasonal_forcing self t =
     (let phase = 2 * pi * (t - peak_day self) / 365
      in 1 + seasonal_forcing_amp self * cos phase)"

definition NonMarkovianSEIRSimulationBase_init ::
  "(real \<Rightarrow> real) option \<Rightarrow> real \<Rightarrow> 'dist \<Rightarrow> real \<Rightarrow> real
     \<Rightarrow> 'dist NonMarkovianSEIRSimulationBase" where
  "NonMarkovianSEIRSimulationBase_init mit r serial amp peak =
     \<lparr>mitigation = (case mit of Some m \<Rightarrow> m | None \<Rightarrow> (\<lambda>t. 1)),
      serial_dist = serial,
      seasonal_forcing_amp = amp,
      peak_day = peak,
      r0 = r,
      total_population = None,
      population = None,
      serial_pdf = None\<rparr>"

text \<open>
  Indexing with \<open>count - 1\<close> for a non-negative \<open>count\<close>: at \<open>count = 0\<close> the index
  \<open>-1\<close> is the last position, and the slice \<open>[count-1::-1]\<close> runs from there
  (clamped to the end of the row) back to the start.
\<close>

definition index_prev :: "real list \<Rightarrow> nat \<Rightarrow> error + real" where
  "index_prev row count =
     (if count = 0 then (if row = [] then Inl IndexError else Inr (last row))
      else index row (count - 1))"

definition slice_back :: "real list \<Rightarrow> nat \<Rightarrow> real list" where
  "slice_back row count = (if count = 0 then rev row else rev (take count row))"

text \<open>One row of \<open>np.dot(matrix, vector)\<close>: the lengths must agree.\<close>

definition dot_row :: "real list \<Rightarrow> real list \<Rightarrow> error + real" where
  "dot_row row v =
     (if length row = length v then Inr (sum_list (map2 (*) row v)) else Inl ValueError)"

text \<open>\<open>array[..., count] = values\<close>, one value per row.\<close>

definition assign_col :: "real list list \<Rightarrow> nat \<Rightarrow> real list \<Rightarrow> error + real list list" where
  "assign_col rows count vals =
     (if length rows \<noteq> length vals then Inl ValueError
      else those_err (map2 (\<lambda>row v. if count < length row then Inr (row[count := v])
                                    else Inl IndexError) rows vals))"

text \<open>
  \<open>step\<close> mutates \<open>state\<close>; the model returns the new state.  The division by
  \<open>total_population\<close> is NumPy's, which yields \<open>nan\<close> or \<open>inf\<close> for a zero divisor
  instead of raising; results about \<open>step\<close> are stated for a nonzero population.
\<close>

definition step ::
  "('dist, 'm) NonMarkovianSEIRSimulationBase_scheme \<Rightarrow> SimulationResult \<Rightarrow> nat \<Rightarrow> real
     \<Rightarrow> error + SimulationResult" where
  "step self state count dt =
     ebind (index (t_arr state) count) (\<lambda>tc.
     let Rt = r0 self * mitigation self tc * seasonal_forcing self tc in
     ebind (lookup (y_arr state) ''infected'') (\<lambda>infected.
     ebind (attr_set (serial_pdf self)) (\<lambda>pdf.
     ebind (those_err (map (\<lambda>row. dot_row (slice_back row count) (take count pdf)) infected))
       (\<lambda>j_m.
     let j_i = sum_list j_m in
     ebind (lookup (y_arr state) ''susceptible'') (\<lambda>susceptible.
     ebind (those_err (map (\<lambda>row. index_prev row count) susceptible)) (\<lambda>S_i.
     ebind (attr_set (total_population self)) (\<lambda>n.
     let new_infected_i = map (\<lambda>s. dt * Rt * s * j_i / n) S_i in
     ebind (assign_col infected count new_infected_i) (\<lambda>infected'.
     let y1 = (y_arr state)(''infected'' \<mapsto> infected') in
     ebind (lookup y1 ''susceptible'') (\<lambda>susceptible1.
     ebind (those_err (map (\<lambda>row. index_prev row count) susceptible1)) (\<lambda>S_prev.
     if length S_prev \<noteq> length new_infected_i then Inl ValueError
     else
     ebind (assign_col susceptible1 count (map2 (-) S_prev new_infected_i)) (\<lambda>susceptible'.
     Inr (state\<lparr>y_arr := y1(''susceptible'' \<mapsto> susceptible')\<rparr>))))))))))))"

text \<open>\<open>get_y0\<close>: returns the initial condition and sets two attributes of \<open>self\<close>.\<close>

definition get_y0 ::
  "('dist, 'm) NonMarkovianSEIRSimulationBase_scheme \<Rightarrow> real \<Rightarrow> real \<Rightarrow> real list
     \<Rightarrow> ('dist, 'm) NonMarkovianSEIRSimulationBase_scheme \<times> (string \<rightharpoonup> real list)" where
  "get_y0 self total_pop initial_cases age_distribution =
     (let pop = map (\<lambda>a. total_pop * a) age_distribution;
          infected = map (\<lambda>a. initial_cases * a) age_distribution
      in (self\<lparr>total_population := Some total_pop, population := Some pop\<rparr>,
          [''infected'' \<mapsto> infected, ''susceptible'' \<mapsto> map2 (-) pop infected]))"

section \<open>The SEIR++ simulation: construction (\<open>pydemic/models/seirpp.py\<close>)\<close>

text \<open>
  The keyword arguments of \<open>SEIRPlusPlusSimulation.__init__\<close> that its body computes
  with.  The delay distributions are objects of \<open>pydemic.distributions\<close> that the
  constructor stores unchanged next to each probability; they are left out.
\<close>

record seirpp_kwargs =
  age_distribution :: "real list"
  ifr :: "real option"
  p_symptomatic :: ndarray
  p_positive :: ndarray
  p_hospitalized :: ndarray
  p_critical :: ndarray
  p_dead :: ndarray
  all_dead_multiplier :: real

definition np_mul :: "ndarray \<Rightarrow> ndarray \<Rightarrow> error + ndarray" where
  "np_mul = broadcast2 (*)"

text \<open>
  \<open>weighted_sum\<close> as the constructor computes it from a given \<open>p_symptomatic\<close>:
  \<open>p_dead_net = p_symptomatic * p_hospitalized * p_critical * p_dead *
  all_dead_multiplier\<close>, then \<open>(p_dead_net * age_distribution).sum()\<close>.
\<close>

definition weighted_sum :: "seirpp_kwargs \<Rightarrow> ndarray \<Rightarrow> error + real" where
  "weighted_sum kw p_sym =
     ebind (np_mul p_sym (p_hospitalized kw)) (\<lambda>a.
     ebind (np_mul a (p_critical kw)) (\<lambda>b.
     ebind (np_mul b (p_dead kw)) (\<lambda>c.
     let p_dead_net = np_map (\<lambda>x. x * all_dead_multiplier kw) c in
     ebind (np_mul p_dead_net (Array (age_distribution kw))) (\<lambda>w.
     Inr (np_sum w)))))"

text \<open>
  The block \<open>if ifr is not None: ... p_symptomatic *= ifr / weighted_sum\<close>; its
  value is \<open>p_symptomatic\<close> as the rest of the constructor sees it.  The division is
  NumPy's, which yields \<open>inf\<close> or \<open>nan\<close> for a zero divisor instead of raising;
  results about the rescaled value are stated for a nonzero \<open>weighted_sum\<close>.
\<close>

definition rescale_p_symptomatic :: "seirpp_kwargs \<Rightarrow> error + ndarray" where
  "rescale_p_symptomatic kw =
     (case ifr kw of
        None \<Rightarrow> Inr (p_symptomatic kw)
      | Some i \<Rightarrow>
          ebind (weighted_sum kw (p_symptomatic kw)) (\<lambda>ws.
          Inr (np_map (\<lambda>x. x * (i / ws)) (p_symptomatic kw))))"

text \<open>The list \<open>p_progression\<close> and the loop that checks it.\<close>

definition p_progression :: "seirpp_kwargs \<Rightarrow> ndarray \<Rightarrow> error + ndarray list" where
  "p_progression kw p_sym =
     (let p0 = Array (age_distribution kw) in
      ebind (np_mul p0 p_sym) (\<lambda>p1.
      ebind (np_mul p1 (p_hospitalized kw)) (\<lambda>p2.
      ebind (np_mul p2 (p_critical kw)) (\<lambda>p3.
      ebind (np_mul p3 (p_dead kw)) (\<lambda>p4.
      Inr [p0, p1, p2, p3, p4])))))"

definition progression_names :: "string list" where
  "progression_names = [''p_symptomatic'', ''p_hospitalized'', ''p_critical'', ''p_dead'']"

fun check_progression :: "string list \<Rightarrow> ndarray list \<Rightarrow> error + unit" where
  "check_progression [] ps = Inr ()"
| "check_progression (n # ns) (p # q # ps) =
     (if np_sum p < np_sum q then Inl (InvalidParametersError (n @ '' is too large''))
      else check_progression ns (q # ps))"
| "check_progression (n # ns) ps = Inl IndexError"

text \<open>
  The constructed object: the attributes of the base class and \<open>readouts\<close>, which
  maps each readout to its source compartment and probability.
\<close>

record 'dist SEIRPlusPlusSimulation = "'dist NonMarkovianSEIRSimulationBase" +
  readouts :: "(string \<times> string \<times> ndarray) list"

text \<open>
  \<open>SEIRPlusPlusSimulation.__init__\<close>, with the import of
  \<open>InvalidParametersError\<close> resolved against the names of a given module; the
  constructor of the source resolves it against \<open>pydemic.sampling\<close>.
\<close>

definition SEIRPlusPlusSimulation_init_in ::
  "string list \<Rightarrow> (real \<Rightarrow> real) option \<Rightarrow> real \<Rightarrow> 'dist \<Rightarrow> real \<Rightarrow> real \<Rightarrow> seirpp_kwargs
     \<Rightarrow> error + 'dist SEIRPlusPlusSimulation" where
  "SEIRPlusPlusSimulation_init_in names mit r serial amp peak kw =
     (let base = NonMarkovianSEIRSimulationBase_init mit r serial amp peak in
      ebind (rescale_p_symptomatic kw) (\<lambda>p_sym.
      ebind (import_from names ''InvalidParametersError'') (\<lambda>_.
      ebind (p_progression kw p_sym) (\<lambda>progression.
      ebind (check_progression progression_names progression) (\<lambda>_.
      ebind (np_mul (p_positive kw) p_sym) (\<lambda>p_pos.
      Inr \<lparr>mitigation = mitigation base,
           serial_dist = serial_dist base,
           seasonal_forcing_amp = seasonal_forcing_amp base,
           peak_day = peak_day base,
           r0 = r0 base,
           total_population = total_population base,
           population = population base,
           serial_pdf = serial_pdf base,
           readouts =
             [(''symptomatic'', ''infected'', p_sym),
              (''positive'', ''infected'', p_pos),
              (''admitted_to_hospital'', ''symptomatic'', p_hospitalized kw),
              (''icu'', ''admitted_to_hospital'', p_critical kw),
              (''dead'', ''icu'', p_dead kw),
              (''general_ward'', ''icu'', np_map (\<lambda>x. 1 - x) (p_dead kw)),
              (''hospital_recovered'', ''admitted_to_hospital'',
                 np_map (\<lambda>x. 1 - x) (p_critical kw)),
              (''general_ward_recovered'', ''general_ward'', Scalar 1),
              (''all_dead'', ''dead'', Scalar (all_dead_multiplier kw))]\<rparr>))))))"

definition SEIRPlusPlusSimulation_init ::
  "(real \<Rightarrow> real) option \<Rightarrow> real \<Rightarrow> 'dist \<Rightarrow> real \<Rightarrow> real \<Rightarrow> seirpp_kwargs
     \<Rightarrow> error + 'dist SEIRPlusPlusSimulation" where
  "SEIRPlusPlusSimulation_init = SEIRPlusPlusSimulation_init_in sampling_module"

text \<open>
  A probability fits the age distribution when it is a scalar or has one entry per age
  group; then no product in the constructor fails to broadcast.
\<close>

fun fits :: "nat \<Rightarrow> ndarray \<Rightarrow> bool" where
  "fits n (Scalar x) = True"
| "fits n (Array xs) = (length xs = n)"

definition well_shaped :: "seirpp_kwargs \<Rightarrow> bool" where
  "well_shaped kw =
     (let n = length (age_distribution kw) in
      fits n (p_symptomatic kw) \<and> fits n (p_hospitalized kw)
      \<and> fits n (p_critical kw) \<and> fits n (p_dead kw))"

section \<open>The calibration entry point (\<open>get_model_data\<close>)\<close>

text \<open>
  The evaluation times are a \<open>pandas.DatetimeIndex\<close> or an array of day numbers.  A
  timestamp is represented by its number of days since 2020-01-01, which is what the
  conversion \<open>(t - pd.to_datetime('2020-01-01')) / pd.Timedelta('1D')\<close> computes.
\<close>

datatype time_index = DatetimeIndex "real list" | DayNumbers "real list"

fun days_of :: "time_index \<Rightarrow> real list" where
  "days_of (DatetimeIndex ds) = ds"
| "days_of (DayNumbers ds) = ds"

text \<open>
  \<open>get_model_data\<close> up to and including its first check.  The remainder of the
  function (the mitigation model, the delay distributions, the run and the
  interpolation) depends on \<open>pydemic.mitigation\<close>, \<open>pydemic.distributions\<close>, SciPy
  and pandas; it is the parameter \<open>rest\<close>, which receives \<open>t_eval\<close>, \<open>t0\<close>,
  \<open>tf\<close> and the keyword arguments without \<open>start_day\<close>.  As for the constructor,
  the import is resolved against the names of a given module.
\<close>

definition get_model_data_in ::
  "string list \<Rightarrow> (real list \<Rightarrow> real \<Rightarrow> real \<Rightarrow> (string \<rightharpoonup> real) \<Rightarrow> error + 'df)
     \<Rightarrow> time_index \<Rightarrow> (string \<rightharpoonup> real) \<Rightarrow> error + 'df" where
  "get_model_data_in names rest t kwargs =
     (let t_eval = days_of t in
      ebind (lookup kwargs ''start_day'') (\<lambda>t0.
      let kwargs1 = kwargs(''start_day'' := None) in
      if t_eval = [] then Inl IndexError
      else
        let tf = last t_eval + 2 in
        ebind (import_from names ''InvalidParametersError'') (\<lambda>_.
        if list_ex (\<lambda>x. x < t0 + 1) t_eval
        then Inl (InvalidParametersError
               ''Must start simulation at least one day before result evaluation.'')
        else rest t_eval t0 tf kwargs1)))"

definition get_model_data ::
  "(real list \<Rightarrow> real \<Rightarrow> real \<Rightarrow> (string \<rightharpoonup> real) \<Rightarrow> error + 'df)
     \<Rightarrow> time_index \<Rightarrow> (string \<rightharpoonup> real) \<Rightarrow> error + 'df" where
  "get_model_data = get_model_data_in sampling_module"

section \<open>The persistent backend (\<open>pydemic/hdf.py\<close>)\<close>

text \<open>
  What the backend keeps in the HDF5 file: the group \<open>fixed_values\<close> with one
  scalar per key, the group \<open>fit_parameters\<close> with its named arrays, and the file
  attribute \<open>simulator\<close>.  A group that was never created is \<open>None\<close>.  The
  sampler state of the parent class and the optional \<open>data\<close> argument (whose
  container belongs to \<open>pydemic.data\<close>, a module outside the modelled files whose
  import is taken to succeed) are left out.
\<close>

datatype dataset =
    Strings "string list"
  | Pairs "(real \<times> real) list"
  | Floats "pyfloat list"

record hdf_file =
  fixed_values_group :: "(string \<times> real) list option"
  fit_parameters_group :: "(string \<times> dataset) list option"
  simulator_attr :: "string option"

definition new_file :: hdf_file where
  "new_file = \<lparr>fixed_values_group = None, fit_parameters_group = None, simulator_attr = None\<rparr>"

definition nanify :: "real option \<Rightarrow> pyfloat" where
  "nanify x = (case x of Some v \<Rightarrow> Fin v | None \<Rightarrow> NaN)"

fun denanify :: "pyfloat \<Rightarrow> real option" where
  "denanify (Fin v) = Some v"
| "denanify x = None"

text \<open>
  \<open>SampleParameter.__init__\<close> sets the attributes \<open>name\<close>, \<open>bounds\<close>,
  \<open>guess\<close> and \<open>uncertainty\<close> and no other, so reading \<open>par.sigma\<close> raises.
\<close>

definition SampleParameter_sigma :: "SampleParameter \<Rightarrow> error + real option" where
  "SampleParameter_sigma par = Inl AttributeError"

text \<open>
  Calling \<open>SampleParameter(name, *args)\<close>: the constructor takes three arguments
  after the name, and any other number raises \<open>TypeError\<close>.  (Python would bind any
  three values; the record fixes their kinds.)
\<close>

datatype ctor_arg = BoundsArg "real \<times> real" | OptArg "real option"

fun SampleParameter_new :: "string \<Rightarrow> ctor_arg list \<Rightarrow> error + SampleParameter" where
  "SampleParameter_new n [BoundsArg b, OptArg g, OptArg u] =
     Inr \<lparr>name = n, bounds = b, guess = g, uncertainty = u\<rparr>"
| "SampleParameter_new n args = Inl TypeError"

text \<open>
  The writes of \<open>HDFBackend.__init__\<close>.  They happen inside one \<open>with\<close> block: an
  exception leaves the block, the file is closed and keeps what was written before.
  The result is the file and the exception raised, if any.  \<open>create_group\<close> raises
  \<open>ValueError\<close> for a group that exists.
\<close>

definition write_fixed_values :: "hdf_file \<Rightarrow> (string \<times> real) list \<Rightarrow> hdf_file \<times> error option" where
  "write_fixed_values f fixed =
     (if fixed_values_group f \<noteq> None then (f, Some ValueError)
      else (f\<lparr>fixed_values_group := Some fixed\<rparr>, None))"

definition write_fit_parameters :: "hdf_file \<Rightarrow> SampleParameter list \<Rightarrow> hdf_file \<times> error option" where
  "write_fit_parameters f pars =
     (if fit_parameters_group f \<noteq> None then (f, Some ValueError)
      else
        let written =
              [(''names'', Strings (map name pars)),
               (''bounds'', Pairs (map bounds pars)),
               (''guess'', Floats (map (\<lambda>par. nanify (guess par)) pars)),
               (''uncertainty'', Floats (map (\<lambda>par. nanify (uncertainty par)) pars))]
        in case those_err (map SampleParameter_sigma pars) of
             Inl e \<Rightarrow> (f\<lparr>fit_parameters_group := Some written\<rparr>, Some e)
           | Inr sigmas \<Rightarrow>
               (f\<lparr>fit_parameters_group :=
                    Some (written @ [(''sigma'', Floats (map nanify sigmas))])\<rparr>, None))"

definition HDFBackend_init ::
  "hdf_file \<Rightarrow> SampleParameter list option \<Rightarrow> (string \<times> real) list option \<Rightarrow> string option
     \<Rightarrow> hdf_file \<times> error option" where
  "HDFBackend_init f fit_pars fixed simulator =
     (let (f1, e1) = (case fixed of None \<Rightarrow> (f, None) | Some fv \<Rightarrow> write_fixed_values f fv) in
      if e1 \<noteq> None then (f1, e1)
      else
        let (f2, e2) = (case fit_pars of None \<Rightarrow> (f1, None)
                        | Some pars \<Rightarrow> write_fit_parameters f1 pars) in
        if e2 \<noteq> None then (f2, e2)
        else (case simulator of None \<Rightarrow> (f2, None)
              | Some s \<Rightarrow> (f2\<lparr>simulator_attr := Some s\<rparr>, None)))"

text \<open>The property \<open>fixed_values\<close>.\<close>

definition read_fixed_values :: "hdf_file \<Rightarrow> error + (string \<rightharpoonup> real)" where
  "read_fixed_values f =
     (case fixed_values_group f of None \<Rightarrow> Inl KeyError | Some kvs \<Rightarrow> Inr (dict_of kvs))"

text \<open>Reading one array of the group \<open>fit_parameters\<close>.\<close>

definition read_dataset :: "hdf_file \<Rightarrow> string \<Rightarrow> error + dataset" where
  "read_dataset f key =
     (case fit_parameters_group f of
        None \<Rightarrow> Inl KeyError
      | Some g \<Rightarrow> lookup (map_of g) key)"

fun as_strings :: "dataset \<Rightarrow> error + string list" where
  "as_strings (Strings xs) = Inr xs"
| "as_strings d = Inl TypeError"

fun as_pairs :: "dataset \<Rightarrow> error + (real \<times> real) list" where
  "as_pairs (Pairs xs) = Inr xs"
| "as_pairs d = Inl TypeError"

fun as_floats :: "dataset \<Rightarrow> error + pyfloat list" where
  "as_floats (Floats xs) = Inr xs"
| "as_floats d = Inl TypeError"

text \<open>
  The property \<open>fit_parameters\<close>: for the \<open>i\<close>-th name, the arguments are the
  \<open>i\<close>-th bounds and the \<open>i\<close>-th entries of \<open>guess\<close>, \<open>uncertainty\<close> and
  \<open>sigma\<close>.
\<close>

definition read_parameter :: "hdf_file \<Rightarrow> nat \<Rightarrow> string \<Rightarrow> error + SampleParameter" where
  "read_parameter f i nm =
     ebind (ebind (read_dataset f ''bounds'') as_pairs) (\<lambda>bs.
     ebind (index bs i) (\<lambda>b.
     ebind (those_err
              (map (\<lambda>key. ebind (ebind (read_dataset f key) as_floats) (\<lambda>xs.
                           ebind (index xs i) (\<lambda>x. Inr (OptArg (denanify x)))))
                 [''guess'', ''uncertainty'', ''sigma''])) (\<lambda>more.
     SampleParameter_new nm (BoundsArg b # more))))"

definition read_fit_parameters :: "hdf_file \<Rightarrow> error + SampleParameter list" where
  "read_fit_parameters f =
     ebind (ebind (read_dataset f ''names'') as_strings) (\<lambda>names.
     those_err (map (\<lambda>(i, nm). read_parameter f i nm) (enumerate 0 names)))"

section \<open>Restricted-key records: results\<close>

lemma dict_init_kwargs:
  assumes "distinct (map fst kwargs)" and "dict_init args kwargs = Inr d"
    and "(k, v) \<in> set kwargs"
  shows "d k = Some v"
proof -
  have m: "map_of kwargs k = Some v"
    using assms(1,3) by simp
  show ?thesis
  proof (cases args)
    case Nil
    with assms(2) m show ?thesis by (simp add: dict_init_def)
  next
    case (Cons a rest)
    with assms(2) m show ?thesis
      by (cases rest) (auto simp: dict_init_def map_add_def)
  qed
qed

lemma dict_init_ok:
  "length args \<le> 1 \<Longrightarrow> \<exists>d. dict_init args kwargs = Inr d"
  by (cases args; cases "tl args") (auto simp: dict_init_def)

text \<open>
  Claim C1, as amended.  Construction of a restricted-key record raises the invalid-input
  error (\<open>ValueError\<close>) exactly when some field name declared in the class's
  \<open>expected_kwargs\<close> is missing from the supplied keyword names; keyword names outside
  the declared set are accepted.  When every declared name is supplied (and at most one
  positional argument is given), construction succeeds, and every supplied keyword is
  readable as a mapping entry and, unless its name is one of Python's data descriptors,
  as a same-named attribute with the same value.
\<close>

theorem AttrDict_init_requires_declared:
  assumes "distinct (map fst kwargs)" and "length args \<le> 1"
  shows "(AttrDict_init c args kwargs = Inl ValueError
            \<longleftrightarrow> \<not> expected_kwargs c \<subseteq> fst ` set kwargs)
       \<and> (expected_kwargs c \<subseteq> fst ` set kwargs \<longrightarrow>
            (\<exists>obj. AttrDict_init c args kwargs = Inr obj
               \<and> cls obj = c
               \<and> (\<forall>(k, v) \<in> set kwargs.
                     getitem obj k = Inr v
                   \<and> (k \<notin> set data_descriptors \<longrightarrow>
                        getattr_obj type_attr obj k = Inr (FromDict v)))))"
proof -
  obtain d where d: "dict_init args kwargs = Inr d"
    using dict_init_ok [OF assms(2)] by blast
  have look: "d k = Some v" if "(k, v) \<in> set kwargs" for k v
    using dict_init_kwargs [OF assms(1) d that] .
  have first: "AttrDict_init c args kwargs = Inl ValueError
      \<longleftrightarrow> \<not> expected_kwargs c \<subseteq> fst ` set kwargs"
    using d by (simp add: AttrDict_init_def)
  have second: "\<exists>obj. AttrDict_init c args kwargs = Inr obj
               \<and> cls obj = c
               \<and> (\<forall>(k, v) \<in> set kwargs.
                     getitem obj k = Inr v
                   \<and> (k \<notin> set data_descriptors \<longrightarrow>
                        getattr_obj type_attr obj k = Inr (FromDict v)))"
    if sub: "expected_kwargs c \<subseteq> fst ` set kwargs"
  proof -
    have "AttrDict_init c args kwargs = Inr \<lparr>cls = c, entries = d\<rparr>"
      using d sub by (simp add: AttrDict_init_def)
    moreover have "\<forall>(k, v) \<in> set kwargs.
        getitem \<lparr>cls = c, entries = d\<rparr> k = Inr v
      \<and> (k \<notin> set data_descriptors \<longrightarrow>
            getattr_obj type_attr \<lparr>cls = c, entries = d\<rparr> k = Inr (FromDict v))"
      using look by (auto simp: getitem_def getattr_obj_def)
    ultimately show ?thesis by simp
  qed
  from first second show ?thesis by blast
qed

theorem AttrDict_init_requires_declared_witness:
  "distinct (map fst [(''bin_edges'', [0, 10, 20 :: int]), (''counts'', [100, 90])])
   \<and> length ([] :: (string \<times> int list) list list) \<le> 1
   \<and> expected_kwargs AgeDistribution
        \<subseteq> fst ` set [(''bin_edges'', [0, 10, 20 :: int]), (''counts'', [100, 90])]
   \<and> (\<exists>obj. AttrDict_init AgeDistribution []
                [(''bin_edges'', [0, 10, 20 :: int]), (''counts'', [100, 90])] = Inr obj
          \<and> getitem obj ''bin_edges'' = Inr [0, 10, 20]
          \<and> getattr_obj (\<lambda>_. False) obj ''bin_edges'' = Inr (FromDict [0, 10, 20])
          \<and> getitem obj ''counts'' = Inr [100, 90]
          \<and> getattr_obj (\<lambda>_. False) obj ''counts'' = Inr (FromDict [100, 90]))"
proof -
  let ?kw = "[(''bin_edges'', [0, 10, 20 :: int]), (''counts'', [100, 90])]"
  have h1: "distinct (map fst ?kw)" by simp
  have h2: "length ([] :: (string \<times> int list) list list) \<le> 1" by simp
  have h3: "expected_kwargs AgeDistribution \<subseteq> fst ` set ?kw" by simp
  have nd: "''bin_edges'' \<notin> set data_descriptors" "''counts'' \<notin> set data_descriptors"
    by (simp_all add: data_descriptors_def)
  from AttrDict_init_requires_declared [OF h1 h2, of AgeDistribution "\<lambda>_. False"] h3
  obtain obj where o: "AttrDict_init AgeDistribution [] ?kw = Inr obj"
    and all: "\<forall>(k, v) \<in> set ?kw. getitem obj k = Inr v
        \<and> (k \<notin> set data_descriptors \<longrightarrow> getattr_obj (\<lambda>_. False) obj k = Inr (FromDict v))"
    by blast
  from all nd have "getitem obj ''bin_edges'' = Inr [0, 10, 20]"
    "getattr_obj (\<lambda>_. False) obj ''bin_edges'' = Inr (FromDict [0, 10, 20])"
    "getitem obj ''counts'' = Inr [100, 90]"
    "getattr_obj (\<lambda>_. False) obj ''counts'' = Inr (FromDict [100, 90])"
    by simp_all
  with o h1 h2 h3 show ?thesis by blast
qed

text \<open>
  The claim as first stated fails in both directions: \<open>AgeDistribution\<close> accepts the
  undeclared keyword \<open>extra\<close> next to its two declared fields, the base class accepts
  any keyword, and \<open>AgeDistribution\<close> given only \<open>bin_edges\<close>, a proper subset of
  its declared fields, raises.  A key named like a data descriptor is stored as a
  mapping entry, but reading the attribute yields the type's own value.
\<close>

theorem AttrDict_init_counterexample:
  "''extra'' \<notin> expected_kwargs AgeDistribution
   \<and> \<not> isl (AttrDict_init AgeDistribution []
        [(''bin_edges'', [0, 10, 20 :: int]), (''counts'', [100, 90]), (''extra'', [1])])
   \<and> ''foo'' \<notin> expected_kwargs AttrDict
   \<and> \<not> isl (AttrDict_init AttrDict [] [(''foo'', [1 :: int])])
   \<and> {''bin_edges''} \<subseteq> expected_kwargs AgeDistribution
   \<and> AttrDict_init AgeDistribution [] [(''bin_edges'', [0, 10, 20 :: int])] = Inl ValueError
   \<and> getitem (projr (AttrDict_init AttrDict [] [(''__class__'', [1 :: int])])) ''__class__''
        = Inr [1]
   \<and> getattr_obj (\<lambda>_. False)
        (projr (AttrDict_init AttrDict [] [(''__class__'', [1 :: int])])) ''__class__''
        = Inr FromType"
  by (simp add: AttrDict_init_def dict_init_def getitem_def getattr_obj_def
      data_descriptors_def)

section \<open>Likelihood estimation: results\<close>

lemma within_bounds_loop_iff:
  "within_bounds_loop ps \<longleftrightarrow>
     (\<forall>p \<in> set ps. fst (bounds (fst p)) \<le> snd p \<and> snd p \<le> snd (bounds (fst p)))"
proof (induction ps)
  case Nil
  then show ?case by simp
next
  case (Cons p ps)
  then show ?case by (cases p) auto
qed

lemma check_within_bounds_nth:
  assumes len: "length theta = length (fit_parameters est)"
  shows "check_within_bounds est theta \<longleftrightarrow>
     (\<forall>i < length theta. \<not> theta ! i < fst (bounds (fit_parameters est ! i))
                        \<and> \<not> snd (bounds (fit_parameters est ! i)) < theta ! i)"
    (is "?lhs \<longleftrightarrow> ?rhs")
proof
  assume ?lhs
  then have l: "\<forall>p \<in> set (zip (fit_parameters est) theta).
      fst (bounds (fst p)) \<le> snd p \<and> snd p \<le> snd (bounds (fst p))"
    unfolding check_within_bounds_def within_bounds_loop_iff .
  show ?rhs
  proof (intro allI impI)
    fix i assume i: "i < length theta"
    have "zip (fit_parameters est) theta ! i \<in> set (zip (fit_parameters est) theta)"
      using i len by (intro nth_mem) simp
    then have "(fit_parameters est ! i, theta ! i) \<in> set (zip (fit_parameters est) theta)"
      using i len by simp
    from bspec [OF l this]
    show "\<not> theta ! i < fst (bounds (fit_parameters est ! i))
                        \<and> \<not> snd (bounds (fit_parameters est ! i)) < theta ! i"
      by (simp add: not_less)
  qed
next
  assume r: ?rhs
  show ?lhs
    unfolding check_within_bounds_def within_bounds_loop_iff
  proof
    fix p assume "p \<in> set (zip (fit_parameters est) theta)"
    then obtain i where i: "i < length (zip (fit_parameters est) theta)"
      and p: "zip (fit_parameters est) theta ! i = p"
      unfolding in_set_conv_nth by blast
    from i len have i': "i < length theta" by simp
    with p len have "fst p = fit_parameters est ! i" "snd p = theta ! i"
      by auto
    with r i' show "fst (bounds (fst p)) \<le> snd p \<and> snd p \<le> snd (bounds (fst p))"
      by (simp add: not_less)
  qed
qed

lemma dict_of_Cons:
  "dict_of ((k, v) # ps) x =
     (case dict_of ps x of Some y \<Rightarrow> Some y | None \<Rightarrow> if x = k then Some v else None)"
  by (simp add: dict_of_def map_add_def split: option.splits)

lemma dict_of_zip_dom:
  "length ks = length vs \<Longrightarrow> dom (dict_of (zip ks vs)) = set ks"
proof -
  assume len: "length ks = length vs"
  have "dom (dict_of (zip ks vs)) = fst ` set (zip ks vs)"
    by (simp add: dict_of_def dom_map_of_conv_image_fst)
  also have "\<dots> = set (map fst (zip ks vs))"
    by simp
  also have "map fst (zip ks vs) = ks"
    using len by (rule map_fst_zip)
  finally show ?thesis .
qed

lemma dict_of_zip_nth:
  assumes "length ks = length vs" and "i < length ks"
    and "\<forall>j < length ks. i < j \<longrightarrow> ks ! j \<noteq> ks ! i"
  shows "dict_of (zip ks vs) (ks ! i) = Some (vs ! i)"
  using assms
proof (induction ks vs arbitrary: i rule: list_induct2)
  case Nil
  then show ?case by simp
next
  case (Cons k ks v vs)
  show ?case
  proof (cases i)
    case 0
    have "k \<notin> set ks"
    proof
      assume "k \<in> set ks"
      then obtain j where j: "j < length ks" "ks ! j = k"
        by (auto simp: in_set_conv_nth)
      with Cons.prems(2) [rule_format, of "Suc j"] 0 show False by simp
    qed
    then have "dict_of (zip ks vs) k = None"
      using dict_of_zip_dom [OF Cons.hyps] by (metis domIff)
    with 0 show ?thesis by (simp add: dict_of_Cons)
  next
    case (Suc i')
    have later: "\<forall>j < length ks. i' < j \<longrightarrow> ks ! j \<noteq> ks ! i'"
    proof (intro allI impI)
      fix j assume "j < length ks" "i' < j"
      with Cons.prems(2) [rule_format, of "Suc j"] Suc show "ks ! j \<noteq> ks ! i'" by simp
    qed
    from Cons.prems(1) Suc have "i' < length ks" by simp
    from Cons.IH [OF this later] Suc show ?thesis
      by (simp add: dict_of_Cons)
  qed
qed

lemma call_estimator_gate:
  assumes "length theta = length pars"
  shows "call_estimator gll (LikelihoodEstimatorBase_init pars fixed dat nrm) theta =
    (if \<exists>i < length theta. theta ! i < fst (bounds (pars ! i))
                          \<or> snd (bounds (pars ! i)) < theta ! i
     then Inr NegInf
     else gll (dict_of (zip (map name pars) theta)))"
proof -
  let ?est = "LikelihoodEstimatorBase_init pars fixed dat nrm"
  have fp: "fit_parameters ?est = pars" and fn: "fit_names ?est = map name pars"
    by (simp_all add: LikelihoodEstimatorBase_init_def)
  from assms have "length theta = length (fit_parameters ?est)"
    by (simp only: fp)
  from check_within_bounds_nth [OF this]
  have "check_within_bounds ?est theta \<longleftrightarrow>
     (\<forall>i < length theta. \<not> theta ! i < fst (bounds (pars ! i))
                        \<and> \<not> snd (bounds (pars ! i)) < theta ! i)"
    unfolding fp .
  also have "\<dots> \<longleftrightarrow> \<not> (\<exists>i < length theta. theta ! i < fst (bounds (pars ! i))
                          \<or> snd (bounds (pars ! i)) < theta ! i)"
    by blast
  finally have c: "check_within_bounds ?est theta \<longleftrightarrow>
     \<not> (\<exists>i < length theta. theta ! i < fst (bounds (pars ! i))
                          \<or> snd (bounds (pars ! i)) < theta ! i)" .
  show ?thesis
    unfolding call_estimator_def c fn by simp
qed

text \<open>
  Claim C5.  For an estimator built by the constructor and a vector \<open>theta\<close> with one
  value per fit parameter, in declared order: the call returns negative infinity when
  some component lies strictly outside the inclusive bounds of its parameter, and this
  is the only case in which the call returns without delegating; otherwise it returns
  \<open>get_log_likelihood\<close> applied to the dictionary that zips the fit-parameter names
  with the components of \<open>theta\<close>: its keys are exactly the fit-parameter names, and
  each name is mapped to the component of \<open>theta\<close> at its position (at its last
  position, should a name occur twice).
\<close>

theorem call_estimator_bounds_gate:
  assumes "length theta = length pars"
  shows "\<exists>parameters.
      call_estimator gll (LikelihoodEstimatorBase_init pars fixed dat nrm) theta =
        (if \<exists>i < length theta. theta ! i < fst (bounds (pars ! i))
                              \<or> snd (bounds (pars ! i)) < theta ! i
         then Inr NegInf
         else gll parameters)
    \<and> dom parameters = set (map name pars)
    \<and> (\<forall>i < length pars.
          (\<forall>j < length pars. i < j \<longrightarrow> name (pars ! j) \<noteq> name (pars ! i)) \<longrightarrow>
          parameters (name (pars ! i)) = Some (theta ! i))"
proof -
  let ?d = "dict_of (zip (map name pars) theta)"
  have len: "length (map name pars) = length theta"
    using assms by simp
  have a: "call_estimator gll (LikelihoodEstimatorBase_init pars fixed dat nrm) theta =
        (if \<exists>i < length theta. theta ! i < fst (bounds (pars ! i))
                              \<or> snd (bounds (pars ! i)) < theta ! i
         then Inr NegInf
         else gll ?d)"
    by (rule call_estimator_gate [OF assms])
  have b: "dom ?d = set (map name pars)"
    by (rule dict_of_zip_dom [OF len])
  have c: "?d (name (pars ! i)) = Some (theta ! i)"
    if i: "i < length pars"
      and later: "\<forall>j < length pars. i < j \<longrightarrow> name (pars ! j) \<noteq> name (pars ! i)"
    for i
  proof -
    have i': "i < length (map name pars)" using i by simp
    have "\<forall>j < length (map name pars). i < j \<longrightarrow> map name pars ! j \<noteq> map name pars ! i"
      using later i by simp
    from dict_of_zip_nth [OF len i' this] i show ?thesis by simp
  qed
  from a b c show ?thesis by blast
qed

theorem call_estimator_bounds_gate_witness:
  "call_estimator (\<lambda>d. case d ''beta'' of None \<Rightarrow> Inl KeyError | Some v \<Rightarrow> Inr (Fin (v * 3)))
        (LikelihoodEstimatorBase_init
           [\<lparr>name = ''beta'', bounds = (0, 1), guess = Some (1 / 2), uncertainty = Some (1 / 10)\<rparr>]
           [] () None) [1 / 2] = Inr (Fin (3 / 2))
   \<and> call_estimator (\<lambda>d. case d ''beta'' of None \<Rightarrow> Inl KeyError | Some v \<Rightarrow> Inr (Fin (v * 3)))
        (LikelihoodEstimatorBase_init
           [\<lparr>name = ''beta'', bounds = (0, 1), guess = Some (1 / 2), uncertainty = Some (1 / 10)\<rparr>]
           [] () None) [2] = Inr NegInf"
proof -
  let ?p = "\<lparr>name = ''beta'', bounds = (0 :: real, 1 :: real), guess = Some (1 / 2 :: real),
             uncertainty = Some (1 / 10 :: real)\<rparr>"
  let ?g = "\<lambda>d :: string \<rightharpoonup> real.
      case d ''beta'' of None \<Rightarrow> Inl KeyError | Some v \<Rightarrow> Inr (Fin (v * 3))"
  let ?est = "LikelihoodEstimatorBase_init [?p] [] () None"
  have h1: "length [1 / 2 :: real] = length [?p]" by simp
  have h2: "length [2 :: real] = length [?p]" by simp
  have inb: "\<not> (\<exists>i < length [1 / 2 :: real]. [1 / 2 :: real] ! i < fst (bounds ([?p] ! i))
                          \<or> snd (bounds ([?p] ! i)) < [1 / 2 :: real] ! i)"
    by simp
  have out: "\<exists>i < length [2 :: real]. [2 :: real] ! i < fst (bounds ([?p] ! i))
                          \<or> snd (bounds ([?p] ! i)) < [2 :: real] ! i"
    by (rule exI [of _ 0]) simp
  from call_estimator_bounds_gate [OF h1, of ?g "[]" "()" None]
  obtain d where d1: "call_estimator ?g ?est [1 / 2] =
        (if \<exists>i < length [1 / 2 :: real]. [1 / 2 :: real] ! i < fst (bounds ([?p] ! i))
                              \<or> snd (bounds ([?p] ! i)) < [1 / 2 :: real] ! i
         then Inr NegInf else ?g d)"
    and d2: "\<forall>i < length [?p].
          (\<forall>j < length [?p]. i < j \<longrightarrow> name ([?p] ! j) \<noteq> name ([?p] ! i)) \<longrightarrow>
          d (name ([?p] ! i)) = Some ([1 / 2 :: real] ! i)"
    by blast
  from d2 [rule_format, of 0] have "d ''beta'' = Some (1 / 2)" by simp
  with d1 inb have a: "call_estimator ?g ?est [1 / 2] = Inr (Fin (3 / 2))"
    by (simp only: if_False) simp
  from call_estimator_bounds_gate [OF h2, of ?g "[]" "()" None]
  obtain d' where "call_estimator ?g ?est [2] =
        (if \<exists>i < length [2 :: real]. [2 :: real] ! i < fst (bounds ([?p] ! i))
                              \<or> snd (bounds ([?p] ! i)) < [2 :: real] ! i
         then Inr NegInf else ?g d')"
    by blast
  with out have b: "call_estimator ?g ?est [2] = Inr NegInf"
    by (simp only: if_True)
  from a b show ?thesis by (intro conjI)
qed

lemma sum_list_map2_nth:
  "length xs = length ys \<Longrightarrow>
   sum_list (map2 f xs ys) = (\<Sum>i < length xs. f (xs ! i) (ys ! i))"
  by (auto simp: sum_list_sum_nth atLeast0LessThan intro!: sum.cong)

lemma sum_list_zero: "(\<forall>x \<in> set xs. x = (0::real)) \<Longrightarrow> sum_list xs = 0"
  by (induction xs) auto

lemma l2_log_norm_same: "l2_log_norm a a = Inr 0"
proof (cases a)
  case (Scalar x)
  then show ?thesis by (simp add: l2_log_norm_def)
next
  case (Array xs)
  have "sum_list (map (\<lambda>x. x ^ 2) (map2 (-) (map ln xs) (map ln xs))) = 0"
    by (rule sum_list_zero) (auto simp: set_zip)
  with Array show ?thesis by (simp add: l2_log_norm_def)
qed

lemma sq_diff_map2:
  "length xs = length ys \<Longrightarrow>
   map (\<lambda>x. x ^ 2) (map2 (-) (map ln xs) (map ln ys))
     = map2 (\<lambda>x y. (ln x - ln y) ^ 2) xs (ys :: real list)"
  by (induction xs ys rule: list_induct2) auto

lemma sq_diff_sym:
  "length xs = length ys \<Longrightarrow>
   map2 (\<lambda>x y. (ln x - ln y) ^ 2) xs ys = map2 (\<lambda>x y. (ln x - ln y) ^ 2) ys (xs :: real list)"
  by (induction xs ys rule: list_induct2) (auto simp: power2_commute)


lemma l2_log_norm_arrays:
  assumes len: "length xs = length ys"
  shows "l2_log_norm (Array xs) (Array ys)
           = Inr (- 1 / 2 * sum_list (map2 (\<lambda>x y. (ln x - ln y) ^ 2) xs ys))"
proof -
  have b: "broadcast2 (-) (np_map ln (Array xs)) (np_map ln (Array ys))
             = Inr (Array (map2 (-) (map ln xs) (map ln ys)))"
    using len by simp
  show ?thesis
    unfolding l2_log_norm_def b
    by (simp only: sum.case np_map.simps np_sum.simps sq_diff_map2 [OF len])
qed

lemma l2_log_norm_sym: "l2_log_norm a b = l2_log_norm b a"
proof (cases a; cases b)
  fix x y assume "a = Scalar x" "b = Scalar y"
  then show ?thesis by (simp add: l2_log_norm_def power2_commute)
next
  fix x ys assume "a = Scalar x" "b = Array ys"
  then show ?thesis by (simp add: l2_log_norm_def comp_def power2_commute)
next
  fix xs y assume "a = Array xs" "b = Scalar y"
  then show ?thesis by (simp add: l2_log_norm_def comp_def power2_commute)
next
  fix xs ys assume ab: "a = Array xs" "b = Array ys"
  show ?thesis
  proof (cases "length xs = length ys")
    case True
    show ?thesis
      unfolding ab l2_log_norm_arrays [OF True] l2_log_norm_arrays [OF True [symmetric]]
        sq_diff_sym [OF True] ..
  next
    case False
    then show ?thesis
      by (cases xs; cases ys) (auto simp: ab l2_log_norm_def comp_def power2_commute)
  qed
qed

text \<open>
  Claim C10.  For positive arrays, \<open>l2_log_norm(a, b)\<close> is
  \<open>-(1/2) * sum((log a - log b)^2)\<close> (stated for two arrays of equal length, entry by
  entry), \<open>l2_log_norm(a, a) = 0\<close>, and \<open>l2_log_norm(a, b) = l2_log_norm(b, a)\<close>.
\<close>

theorem l2_log_norm_formula_zero_symmetric:
  assumes "\<forall>x \<in> set (elems a). 0 < x" and "\<forall>y \<in> set (elems b). 0 < y"
  shows "(\<forall>xs ys. a = Array xs \<and> b = Array ys \<and> length xs = length ys \<longrightarrow>
            l2_log_norm a b
              = Inr (- (1 / 2) * (\<Sum>i < length xs. (ln (xs ! i) - ln (ys ! i)) ^ 2)))
       \<and> l2_log_norm a a = Inr 0
       \<and> l2_log_norm a b = l2_log_norm b a"
proof -
  have "l2_log_norm (Array xs) (Array ys)
      = Inr (- (1 / 2) * (\<Sum>i < length xs. (ln (xs ! i) - ln (ys ! i)) ^ 2))"
    if "length xs = length ys" for xs ys
    unfolding l2_log_norm_arrays [OF that]
      sum_list_map2_nth [OF that, of "\<lambda>x y. (ln x - ln y) ^ 2"]
    by simp
  then show ?thesis
    using l2_log_norm_same l2_log_norm_sym by blast
qed

theorem l2_log_norm_formula_zero_symmetric_witness:
  "l2_log_norm (Array [1, 2]) (Array [2, 1]) = Inr (- ((ln 2) ^ 2))
   \<and> l2_log_norm (Array [1, 2]) (Array [1, 2]) = Inr 0
   \<and> l2_log_norm (Array [1, 2]) (Array [2, 1]) = l2_log_norm (Array [2, 1]) (Array [1, 2])"
proof -
  have h1: "\<forall>x \<in> set (elems (Array [1, 2])). 0 < x" by simp
  have h2: "\<forall>y \<in> set (elems (Array [2, 1])). 0 < y" by simp
  note t = l2_log_norm_formula_zero_symmetric [OF h1 h2]
  from t have f: "\<forall>xs ys. Array [1, 2] = Array xs \<and> Array [2, 1] = Array ys
        \<and> length xs = length ys \<longrightarrow>
            l2_log_norm (Array [1, 2]) (Array [2, 1])
              = Inr (- (1 / 2) * (\<Sum>i < length xs. (ln (xs ! i) - ln (ys ! i)) ^ 2))"
    by (rule conjunct1)
  from t have z: "l2_log_norm (Array [1, 2]) (Array [1, 2]) = Inr 0"
    by (elim conjE)
  from t have s: "l2_log_norm (Array [1, 2]) (Array [2, 1]) = l2_log_norm (Array [2, 1]) (Array [1, 2])"
    by (elim conjE)
  from f [rule_format, of "[1, 2]" "[2, 1]"]
  have "l2_log_norm (Array [1, 2]) (Array [2, 1])
      = Inr (- (1 / 2) * (\<Sum>i < length [1, 2 :: real]. (ln ([1, 2] ! i) - ln ([2, 1 :: real] ! i)) ^ 2))"
    by simp
  also have "(\<Sum>i < length [1, 2 :: real]. (ln ([1, 2] ! i) - ln ([2, 1 :: real] ! i)) ^ 2)
      = 2 * (ln 2) ^ 2"
    by simp
  finally have v: "l2_log_norm (Array [1, 2]) (Array [2, 1]) = Inr (- ((ln 2) ^ 2))"
    by simp
  from v z s show ?thesis
    by (intro conjI)
qed

section \<open>The renewal-equation simulation: results\<close>

lemma seasonal_forcing_le_peak:
  assumes "0 \<le> seasonal_forcing_amp self"
  shows "seasonal_forcing self t \<le> seasonal_forcing self (peak_day self)"
proof -
  have "seasonal_forcing_amp self * cos (2 * pi * (t - peak_day self) / 365)
          \<le> seasonal_forcing_amp self * 1"
    by (rule mult_left_mono [OF cos_le_one assms])
  then show ?thesis
    by (simp add: seasonal_forcing_def)
qed

text \<open>
  Claim C9.  The seasonal forcing multiplier is
  \<open>1 + seasonal_forcing_amp * cos(2*pi*(t - peak_day)/365)\<close> for every time \<open>t\<close>;
  at \<open>t = peak_day\<close> it equals \<open>1 + seasonal_forcing_amp\<close>, for every
  \<open>peak_day\<close>, which is its maximum when the amplitude is not negative; and it takes
  the same value at \<open>peak_day\<close> and at \<open>peak_day + 365\<close>.
\<close>

theorem seasonal_forcing_formula_peak_period:
  "seasonal_forcing self t
     = 1 + seasonal_forcing_amp self * cos (2 * pi * (t - peak_day self) / 365)
   \<and> seasonal_forcing self (peak_day self) = 1 + seasonal_forcing_amp self
   \<and> (0 \<le> seasonal_forcing_amp self \<longrightarrow>
        (\<forall>u. seasonal_forcing self u \<le> seasonal_forcing self (peak_day self)))
   \<and> seasonal_forcing self (peak_day self) = seasonal_forcing self (peak_day self + 365)"
proof -
  have a: "seasonal_forcing self t
     = 1 + seasonal_forcing_amp self * cos (2 * pi * (t - peak_day self) / 365)"
    by (simp add: seasonal_forcing_def)
  have b: "seasonal_forcing self (peak_day self) = 1 + seasonal_forcing_amp self"
    by (simp add: seasonal_forcing_def)
  have c: "seasonal_forcing self (peak_day self + 365) = 1 + seasonal_forcing_amp self"
    by (simp add: seasonal_forcing_def)
  from a b c seasonal_forcing_le_peak [of self] show ?thesis
    by simp
qed

theorem seasonal_forcing_formula_peak_period_witness:
  "0 \<le> seasonal_forcing_amp (NonMarkovianSEIRSimulationBase_init None (16 / 5) () (1 / 5) 15)
   \<and> seasonal_forcing (NonMarkovianSEIRSimulationBase_init None (16 / 5) () (1 / 5) 15) 15 = 6 / 5
   \<and> seasonal_forcing (NonMarkovianSEIRSimulationBase_init None (16 / 5) () (1 / 5) 15) (15 + 365) = 6 / 5
   \<and> seasonal_forcing (NonMarkovianSEIRSimulationBase_init None (16 / 5) () (1 / 5) 15) 100 \<le> 6 / 5"
proof -
  let ?s = "NonMarkovianSEIRSimulationBase_init None (16 / 5) () (1 / 5) 15"
  have amp: "seasonal_forcing_amp ?s = 1 / 5" and pk: "peak_day ?s = 15"
    by (simp_all add: NonMarkovianSEIRSimulationBase_init_def)
  note t = seasonal_forcing_formula_peak_period [of ?s 100]
  from t have p: "seasonal_forcing ?s (peak_day ?s) = 1 + seasonal_forcing_amp ?s"
    by (elim conjE)
  from t have m: "0 \<le> seasonal_forcing_amp ?s \<longrightarrow>
        (\<forall>u. seasonal_forcing ?s u \<le> seasonal_forcing ?s (peak_day ?s))"
    by (elim conjE)
  from t have q: "seasonal_forcing ?s (peak_day ?s) = seasonal_forcing ?s (peak_day ?s + 365)"
    by (elim conjE)
  have h: "0 \<le> seasonal_forcing_amp ?s" by (simp add: amp)
  from p have p': "seasonal_forcing ?s 15 = 6 / 5"
    unfolding amp pk by simp
  from q p' have q': "seasonal_forcing ?s (15 + 365) = 6 / 5"
    unfolding pk by simp
  from m h have "seasonal_forcing ?s 100 \<le> seasonal_forcing ?s (peak_day ?s)"
    by blast
  then have m': "seasonal_forcing ?s 100 \<le> 6 / 5"
    unfolding pk p' .
  from h p' q' m' show ?thesis by (intro conjI)
qed

text \<open>
  Claim C8.  For a single age group with \<open>total_population = S0 + I0\<close> (the first
  entries of the two rows, a nonzero population), one invocation of \<open>step\<close> with
  \<open>r0 = 0\<close>, at a time index inside the arrays, returns; it writes zero new infections
  at that index and copies the previous susceptible value, for every serial-interval
  kernel and every \<open>dt > 0\<close>.
\<close>

theorem step_r0_zero:
  assumes "r0 self = 0" and "0 < dt"
    and "serial_pdf self = Some pdf" and "count \<le> length pdf"
    and "total_population self = Some (S_row ! 0 + I_row ! 0)"
    and "S_row ! 0 + I_row ! 0 \<noteq> 0"
    and "1 \<le> count" and "count < length (t_arr state)"
    and "count < length I_row" and "count < length S_row"
    and "y_arr state ''infected'' = Some [I_row]"
    and "y_arr state ''susceptible'' = Some [S_row]"
  shows "\<exists>state'. step self state count dt = Inr state'
           \<and> y_arr state' ''infected'' = Some [I_row[count := 0]]
           \<and> y_arr state' ''susceptible'' = Some [S_row[count := S_row ! (count - 1)]]"
  using assms
  by (simp add: step_def index_def lookup_def attr_set_def dot_row_def slice_back_def
      index_prev_def assign_col_def Let_def)

theorem step_r0_zero_witness:
  "\<exists>state'.
     step ((NonMarkovianSEIRSimulationBase_init None 0 () (1 / 5) 15)
             \<lparr>total_population := Some 100, serial_pdf := Some [3 / 10]\<rparr>)
          \<lparr>t_arr = [0, 1 / 20],
           y_arr = [''infected'' \<mapsto> [[1, 0]], ''susceptible'' \<mapsto> [[99, 0]]]\<rparr>
          1 (1 / 20) = Inr state'
     \<and> y_arr state' ''infected'' = Some [[1, 0]]
     \<and> y_arr state' ''susceptible'' = Some [[99, 99]]"
proof -
  let ?self = "(NonMarkovianSEIRSimulationBase_init None 0 () (1 / 5) 15)
             \<lparr>total_population := Some 100, serial_pdf := Some [3 / 10]\<rparr>"
  let ?state = "\<lparr>t_arr = [0, 1 / 20 :: real],
           y_arr = [''infected'' \<mapsto> [[1, 0 :: real]], ''susceptible'' \<mapsto> [[99, 0 :: real]]]\<rparr>"
  let ?S = "[99, 0 :: real]" and ?I = "[1, 0 :: real]"
  have h1: "r0 ?self = 0"
    by (simp add: NonMarkovianSEIRSimulationBase_init_def)
  have h2: "(0 :: real) < 1 / 20" by simp
  have h3: "serial_pdf ?self = Some [3 / 10]" by simp
  have h4: "(1 :: nat) \<le> length [3 / 10 :: real]" by simp
  have h5: "total_population ?self = Some (?S ! 0 + ?I ! 0)" by simp
  have h6: "?S ! 0 + ?I ! 0 \<noteq> 0" by simp
  have h7: "(1 :: nat) \<le> 1" by simp
  have h8: "1 < length (t_arr ?state)" by simp
  have h9: "1 < length ?I" by simp
  have h10: "1 < length ?S" by simp
  have h11: "y_arr ?state ''infected'' = Some [?I]" by simp
  have h12: "y_arr ?state ''susceptible'' = Some [?S]" by simp
  from step_r0_zero [OF h1 h2 h3 h4 h5 h6 h7 h8 h9 h10 h11 h12]
  show ?thesis by simp
qed

section \<open>The SEIR++ simulation and the calibration entry point: results\<close>

lemma ebind_case:
  "ebind m f = (case m of Inl e \<Rightarrow> Inl e | Inr x \<Rightarrow> f x)"
  by (cases m) simp_all

lemma ebind_neq:
  "m \<noteq> Inl e \<Longrightarrow> (\<And>x. f x \<noteq> Inl e) \<Longrightarrow> ebind m f \<noteq> Inl e"
  by (cases m) auto

lemma no_InvalidParametersError_in_sampling:
  "import_from sampling_module ''InvalidParametersError'' = Inl ImportError"
  by (simp add: import_from_def sampling_module_def)

lemma np_mul_fits:
  "fits n a \<Longrightarrow> fits n b \<Longrightarrow> \<exists>c. np_mul a b = Inr c \<and> fits n c"
  by (cases a; cases b) (simp_all add: np_mul_def)

lemma np_mul_fits_age:
  "fits (length xs) a \<Longrightarrow> \<exists>c. np_mul a (Array xs) = Inr c"
  by (cases a) (simp_all add: np_mul_def)

lemma fits_np_map: "fits n (np_map f a) = fits n a"
  by (cases a) simp_all

lemma weighted_sum_returns:
  assumes "well_shaped kw"
  shows "\<exists>w. weighted_sum kw (p_symptomatic kw) = Inr w"
proof -
  let ?n = "length (age_distribution kw)"
  from assms have f: "fits ?n (p_symptomatic kw)" "fits ?n (p_hospitalized kw)"
    "fits ?n (p_critical kw)" "fits ?n (p_dead kw)"
    by (simp_all add: well_shaped_def Let_def)
  from np_mul_fits [OF f(1) f(2)] obtain a
    where a: "np_mul (p_symptomatic kw) (p_hospitalized kw) = Inr a" "fits ?n a" by blast
  from np_mul_fits [OF a(2) f(3)] obtain b
    where b: "np_mul a (p_critical kw) = Inr b" "fits ?n b" by blast
  from np_mul_fits [OF b(2) f(4)] obtain c
    where c: "np_mul b (p_dead kw) = Inr c" "fits ?n c" by blast
  from c(2) have "fits ?n (np_map (\<lambda>x. x * all_dead_multiplier kw) c)"
    by (simp add: fits_np_map)
  from np_mul_fits_age [OF this] obtain w
    where w: "np_mul (np_map (\<lambda>x. x * all_dead_multiplier kw) c) (Array (age_distribution kw)) = Inr w"
    by blast
  show ?thesis
    by (simp add: weighted_sum_def a b c w)
qed

lemma rescale_returns:
  assumes "well_shaped kw"
  shows "\<exists>p. rescale_p_symptomatic kw = Inr p"
proof (cases "ifr kw")
  case None
  then show ?thesis by (simp add: rescale_p_symptomatic_def)
next
  case (Some i)
  from weighted_sum_returns [OF assms] obtain w
    where "weighted_sum kw (p_symptomatic kw) = Inr w" by blast
  with Some show ?thesis by (simp add: rescale_p_symptomatic_def)
qed

lemma init_cases:
  "SEIRPlusPlusSimulation_init mit r serial amp peak kw =
     (case rescale_p_symptomatic kw of Inl e \<Rightarrow> Inl e | Inr p \<Rightarrow> Inl ImportError)"
  by (cases "rescale_p_symptomatic kw")
     (simp_all add: SEIRPlusPlusSimulation_init_def SEIRPlusPlusSimulation_init_in_def
        no_InvalidParametersError_in_sampling)

lemma np_mul_not_invalid: "np_mul a b \<noteq> Inl (InvalidParametersError m)"
  by (cases a; cases b) (simp_all add: np_mul_def)

lemma weighted_sum_not_invalid:
  "weighted_sum kw p \<noteq> Inl (InvalidParametersError m)"
  unfolding weighted_sum_def Let_def
  by (intro ebind_neq np_mul_not_invalid) simp

lemma rescale_not_invalid:
  "rescale_p_symptomatic kw \<noteq> Inl (InvalidParametersError m)"
proof (cases "ifr kw")
  case None
  then show ?thesis by (simp add: rescale_p_symptomatic_def)
next
  case (Some i)
  have "ebind (weighted_sum kw (p_symptomatic kw))
          (\<lambda>ws. Inr (np_map (\<lambda>x. x * (i / ws)) (p_symptomatic kw)))
        \<noteq> Inl (InvalidParametersError m)"
    by (intro ebind_neq weighted_sum_not_invalid) simp
  with Some show ?thesis by (simp add: rescale_p_symptomatic_def)
qed

lemma get_model_data_cases:
  "get_model_data rest t kwargs =
     (case kwargs ''start_day'' of
        None \<Rightarrow> Inl KeyError
      | Some t0 \<Rightarrow> if days_of t = [] then Inl IndexError else Inl ImportError)"
  by (simp add: get_model_data_def get_model_data_in_def lookup_def Let_def
      no_InvalidParametersError_in_sampling split: option.splits)

lemma get_model_data_in_time_floor:
  assumes "''InvalidParametersError'' \<in> set names" and "kwargs ''start_day'' = Some t0"
    and "days_of t \<noteq> []"
  shows "get_model_data_in names rest t kwargs =
     (if \<exists>x \<in> set (days_of t). x < t0 + 1
      then Inl (InvalidParametersError
             ''Must start simulation at least one day before result evaluation.'')
      else rest (days_of t) t0 (last (days_of t) + 2) (kwargs(''start_day'' := None)))"
  using assms
  by (simp add: get_model_data_in_def lookup_def import_from_def Let_def list_ex_iff)

text \<open>
  Claim C2.  \<open>pydemic/sampling.py\<close> defines no name \<open>InvalidParametersError\<close>.
  Hence every call of \<open>get_model_data\<close> that reaches its validation stage (it has a
  \<open>start_day\<close> and at least one evaluation time), also one whose parameters are all
  valid, raises \<open>ImportError\<close>; so does every construction of
  \<open>SEIRPlusPlusSimulation\<close> whose probabilities fit the age distribution.  Neither
  code path ever returns a result or raises an invalid-parameters error.
\<close>

theorem InvalidParametersError_import_fails:
  "''InvalidParametersError'' \<notin> set sampling_module
   \<and> (kwargs ''start_day'' \<noteq> None \<and> days_of t \<noteq> [] \<longrightarrow>
        get_model_data rest t kwargs = Inl ImportError)
   \<and> isl (get_model_data rest t kwargs)
   \<and> (\<forall>m. get_model_data rest t kwargs \<noteq> Inl (InvalidParametersError m))
   \<and> (well_shaped kw \<longrightarrow>
        SEIRPlusPlusSimulation_init mit r serial amp peak kw = Inl ImportError)
   \<and> isl (SEIRPlusPlusSimulation_init mit r serial amp peak kw)
   \<and> (\<forall>m. SEIRPlusPlusSimulation_init mit r serial amp peak kw
             \<noteq> Inl (InvalidParametersError m))"
proof -
  have a: "''InvalidParametersError'' \<notin> set sampling_module"
    by (simp add: sampling_module_def)
  have b: "get_model_data rest t kwargs = Inl ImportError"
    if "kwargs ''start_day'' \<noteq> None \<and> days_of t \<noteq> []"
    using that by (auto simp: get_model_data_cases)
  have c: "isl (get_model_data rest t kwargs)"
    by (simp add: get_model_data_cases split: option.splits)
  have d: "get_model_data rest t kwargs \<noteq> Inl (InvalidParametersError m)" for m
    by (simp add: get_model_data_cases split: option.splits)
  have e: "SEIRPlusPlusSimulation_init mit r serial amp peak kw = Inl ImportError"
    if "well_shaped kw"
    using rescale_returns [OF that] by (auto simp: init_cases)
  have f: "isl (SEIRPlusPlusSimulation_init mit r serial amp peak kw)"
    by (simp add: init_cases split: sum.splits)
  have g: "SEIRPlusPlusSimulation_init mit r serial amp peak kw
             \<noteq> Inl (InvalidParametersError m)" for m
    using rescale_not_invalid [of kw m] by (auto simp: init_cases split: sum.splits)
  from a b c d e f g show ?thesis by blast
qed

theorem InvalidParametersError_import_fails_witness:
  "get_model_data (\<lambda>t_eval t0 tf kwargs. Inr ()) (DayNumbers [11, 12]) [''start_day'' \<mapsto> 10]
     = Inl ImportError
   \<and> SEIRPlusPlusSimulation_init None (16 / 5) () (1 / 5) 15
       \<lparr>age_distribution = [1], ifr = None, p_symptomatic = Scalar 1,
        p_positive = Scalar 1, p_hospitalized = Scalar 1, p_critical = Scalar 1,
        p_dead = Scalar 1, all_dead_multiplier = 1\<rparr> = Inl ImportError"
proof -
  let ?kw = "\<lparr>age_distribution = [1], ifr = None, p_symptomatic = Scalar 1,
        p_positive = Scalar 1, p_hospitalized = Scalar 1, p_critical = Scalar 1,
        p_dead = Scalar 1, all_dead_multiplier = 1\<rparr>"
  let ?kwargs = "[''start_day'' \<mapsto> 10 :: real]"
  have h1: "?kwargs ''start_day'' \<noteq> None \<and> days_of (DayNumbers [11, 12]) \<noteq> []"
    by simp
  have h2: "well_shaped ?kw"
    by (simp add: well_shaped_def)
  note t = InvalidParametersError_import_fails
    [of ?kwargs "DayNumbers [11, 12]" "\<lambda>t_eval t0 tf kwargs. Inr ()" ?kw None "16 / 5" "()"
       "1 / 5" 15]
  from t h1 have a: "get_model_data (\<lambda>t_eval t0 tf kwargs. Inr ()) (DayNumbers [11, 12]) ?kwargs
     = Inl ImportError"
    by blast
  from t h2 have b: "SEIRPlusPlusSimulation_init None (16 / 5) () (1 / 5) 15 ?kw
     = Inl ImportError"
    by blast
  from a b show ?thesis by (intro conjI)
qed

text \<open>
  Claim C4 states that \<open>get_model_data\<close> raises the invalid-parameters error exactly
  when some evaluation time is earlier than \<open>start_day + 1\<close>.  The check is written
  (\<open>get_model_data_in_time_floor\<close> is what it does once the import succeeds), but
  with \<open>start_day = 10\<close> and the evaluation time \<open>10.5\<close> the function raises
  \<open>ImportError\<close> before it; with \<open>InvalidParametersError\<close> defined in the module
  the same call raises the invalid-parameters error.
\<close>

theorem get_model_data_time_floor_import_error:
  "get_model_data rest (DayNumbers [21 / 2]) [''start_day'' \<mapsto> 10] = Inl ImportError
   \<and> get_model_data_in (''InvalidParametersError'' # sampling_module) rest
        (DayNumbers [21 / 2]) [''start_day'' \<mapsto> 10]
       = Inl (InvalidParametersError
                ''Must start simulation at least one day before result evaluation.'')"
  by (simp add: get_model_data_cases get_model_data_in_def lookup_def import_from_def)

lemma map2_scale_left:
  "map2 (*) (map (\<lambda>x. x * c) xs) ys = map (\<lambda>x. x * c) (map2 (*) xs (ys :: real list))"
proof (induction xs arbitrary: ys)
  case Nil
  then show ?case by simp
next
  case (Cons x xs)
  then show ?case by (cases ys) (simp_all add: ac_simps)
qed

lemma np_mul_scale_left:
  "np_mul (np_map (\<lambda>x. x * c) a) b
     = ebind (np_mul a b) (\<lambda>r. Inr (np_map (\<lambda>x. x * c) r))"
proof (cases a; cases b)
  fix x y assume "a = Scalar x" "b = Scalar y"
  then show ?thesis by (simp add: np_mul_def ac_simps)
next
  fix x ys assume "a = Scalar x" "b = Array ys"
  then show ?thesis by (simp add: np_mul_def ac_simps)
next
  fix xs y assume "a = Array xs" "b = Scalar y"
  then show ?thesis by (simp add: np_mul_def ac_simps)
next
  fix xs ys assume ab: "a = Array xs" "b = Array ys"
  have hd1: "hd (map (\<lambda>x. x * c) xs) = hd xs * c" if "length xs = 1"
    using that by (cases xs) simp_all
  show ?thesis
  proof (cases "length xs = length ys")
    case True
    then show ?thesis by (simp add: ab np_mul_def map2_scale_left)
  next
    case ne: False
    show ?thesis
    proof (cases "length xs = 1")
      case True
      with ne show ?thesis by (simp add: ab np_mul_def hd1 ac_simps)
    next
      case False
      with ne show ?thesis by (simp add: ab np_mul_def ac_simps)
    qed
  qed
qed

lemma np_map_scale_commute:
  "np_map (\<lambda>x. x * m) (np_map (\<lambda>x. x * c) a)
     = np_map (\<lambda>x. x * c) (np_map (\<lambda>x. x * (m :: real)) a)"
  by (cases a) (simp_all add: ac_simps)

lemma np_sum_scale: "np_sum (np_map (\<lambda>x. x * c) a) = np_sum a * c"
  by (cases a) (simp_all add: sum_list_mult_const)

lemma weighted_sum_scale:
  "weighted_sum kw (np_map (\<lambda>x. x * c) p)
     = ebind (weighted_sum kw p) (\<lambda>w. Inr (w * c))"
  unfolding weighted_sum_def Let_def
  by (simp add: np_mul_scale_left np_map_scale_commute np_sum_scale ebind_case
      split: sum.splits)

text \<open>
  What \<open>weighted_sum\<close> computes, entry by entry, for probabilities given per age
  group and for scalar probabilities.
\<close>

lemma weighted_sum_arrays:
  assumes "p_hospitalized kw = Array hs" and "p_critical kw = Array cs"
    and "p_dead kw = Array ds"
    and "length ps = length (age_distribution kw)" and "length hs = length (age_distribution kw)"
    and "length cs = length (age_distribution kw)" and "length ds = length (age_distribution kw)"
  shows "weighted_sum kw (Array ps) =
     Inr (\<Sum>i < length (age_distribution kw).
            ps ! i * hs ! i * cs ! i * ds ! i * all_dead_multiplier kw
              * age_distribution kw ! i)"
  using assms
  by (auto simp: weighted_sum_def np_mul_def sum_list_sum_nth atLeast0LessThan
      intro!: sum.cong)

lemma weighted_sum_scalars:
  assumes "p_hospitalized kw = Scalar h" and "p_critical kw = Scalar c"
    and "p_dead kw = Scalar d"
  shows "weighted_sum kw (Scalar s) =
     Inr (\<Sum>i < length (age_distribution kw).
            s * h * c * d * all_dead_multiplier kw * age_distribution kw ! i)"
  using assms
  by (auto simp: weighted_sum_def np_mul_def sum_list_sum_nth atLeast0LessThan
      intro!: sum.cong)

text \<open>
  The rescaling block by itself: for a nonzero weighted sum it multiplies
  \<open>p_symptomatic\<close> by \<open>ifr / weighted_sum\<close>, and the weighted sum recomputed
  from the result is \<open>ifr\<close>.
\<close>

lemma rescale_p_symptomatic_weighted_sum:
  "(ifr kw = Some i \<and> weighted_sum kw (p_symptomatic kw) = Inr w \<and> w \<noteq> 0 \<longrightarrow>
      rescale_p_symptomatic kw = Inr (np_map (\<lambda>x. x * (i / w)) (p_symptomatic kw))
    \<and> weighted_sum kw (np_map (\<lambda>x. x * (i / w)) (p_symptomatic kw)) = Inr i)
   \<and> (age_distribution kw = [1] \<and> p_symptomatic kw = Scalar s \<and> s \<noteq> 0
      \<and> p_hospitalized kw = Scalar 1 \<and> p_critical kw = Scalar 1 \<and> p_dead kw = Scalar 1
      \<and> all_dead_multiplier kw = 1 \<and> ifr kw = Some (1 / 100) \<longrightarrow>
      rescale_p_symptomatic kw = Inr (Scalar (1 / 100)))"
proof -
  have general: "rescale_p_symptomatic kw = Inr (np_map (\<lambda>x. x * (i / w)) (p_symptomatic kw))
    \<and> weighted_sum kw (np_map (\<lambda>x. x * (i / w)) (p_symptomatic kw)) = Inr i"
    if "ifr kw = Some i \<and> weighted_sum kw (p_symptomatic kw) = Inr w \<and> w \<noteq> 0"
  proof -
    from that have i: "ifr kw = Some i" and w: "weighted_sum kw (p_symptomatic kw) = Inr w"
      and nz: "w \<noteq> 0" by simp_all
    have "rescale_p_symptomatic kw = Inr (np_map (\<lambda>x. x * (i / w)) (p_symptomatic kw))"
      by (simp add: rescale_p_symptomatic_def i w)
    moreover have "weighted_sum kw (np_map (\<lambda>x. x * (i / w)) (p_symptomatic kw)) = Inr i"
    proof -
      have "weighted_sum kw (np_map (\<lambda>x. x * (i / w)) (p_symptomatic kw))
              = ebind (weighted_sum kw (p_symptomatic kw)) (\<lambda>v. Inr (v * (i / w)))"
        by (rule weighted_sum_scale)
      also have "\<dots> = Inr (w * (i / w))"
        by (simp only: w ebind.simps)
      also have "w * (i / w) = i"
        using nz by simp
      finally show ?thesis .
    qed
    ultimately show ?thesis by simp
  qed
  have single: "rescale_p_symptomatic kw = Inr (Scalar (1 / 100))"
    if "age_distribution kw = [1] \<and> p_symptomatic kw = Scalar s \<and> s \<noteq> 0
      \<and> p_hospitalized kw = Scalar 1 \<and> p_critical kw = Scalar 1 \<and> p_dead kw = Scalar 1
      \<and> all_dead_multiplier kw = 1 \<and> ifr kw = Some (1 / 100)"
    using that by (simp add: rescale_p_symptomatic_def weighted_sum_def np_mul_def)
  from general single show ?thesis by blast
qed

text \<open>
  Claim C6 states that constructing \<open>SEIRPlusPlusSimulation\<close> with a given \<open>ifr\<close>
  rescales \<open>p_symptomatic\<close> so that the weighted sum equals \<open>ifr\<close>, and that a
  single age group of weight 1 with all other probabilities 1 and \<open>ifr = 0.01\<close>
  yields \<open>p_symptomatic = 0.01\<close>.  For that input the rescaling block computes
  \<open>0.01\<close>, but the constructor raises \<open>ImportError\<close> right after it, before
  \<open>readouts\<close> is set, so that no simulation holds the rescaled value; with
  \<open>InvalidParametersError\<close> defined in the module the same call returns a
  simulation whose \<open>symptomatic\<close> readout has the probability \<open>0.01\<close>.
\<close>

theorem SEIRPlusPlusSimulation_init_ifr_import_error:
  "SEIRPlusPlusSimulation_init mit r serial amp peak
       \<lparr>age_distribution = [1], ifr = Some (1 / 100), p_symptomatic = Scalar 1,
        p_positive = Scalar 1, p_hospitalized = Scalar 1, p_critical = Scalar 1,
        p_dead = Scalar 1, all_dead_multiplier = 1\<rparr> = Inl ImportError
   \<and> rescale_p_symptomatic
       \<lparr>age_distribution = [1], ifr = Some (1 / 100), p_symptomatic = Scalar 1,
        p_positive = Scalar 1, p_hospitalized = Scalar 1, p_critical = Scalar 1,
        p_dead = Scalar 1, all_dead_multiplier = 1\<rparr> = Inr (Scalar (1 / 100))
   \<and> map_sum id (\<lambda>sim. map_of (readouts sim) ''symptomatic'')
       (SEIRPlusPlusSimulation_init_in (''InvalidParametersError'' # sampling_module)
          mit r serial amp peak
          \<lparr>age_distribution = [1], ifr = Some (1 / 100), p_symptomatic = Scalar 1,
           p_positive = Scalar 1, p_hospitalized = Scalar 1, p_critical = Scalar 1,
           p_dead = Scalar 1, all_dead_multiplier = 1\<rparr>)
       = Inr (Some (''infected'', Scalar (1 / 100)))"
proof -
  let ?kw = "\<lparr>age_distribution = [1], ifr = Some (1 / 100), p_symptomatic = Scalar 1,
        p_positive = Scalar 1, p_hospitalized = Scalar 1, p_critical = Scalar 1,
        p_dead = Scalar 1, all_dead_multiplier = 1\<rparr>"
  have r: "rescale_p_symptomatic ?kw = Inr (Scalar (1 / 100))"
    by (simp add: rescale_p_symptomatic_def weighted_sum_def np_mul_def)
  have a: "SEIRPlusPlusSimulation_init mit r serial amp peak ?kw = Inl ImportError"
    by (simp add: init_cases r)
  have p: "p_progression ?kw (Scalar (1 / 100))
      = Inr [Array [1], Array [1 / 100], Array [1 / 100], Array [1 / 100], Array [1 / 100]]"
    by (simp add: p_progression_def np_mul_def)
  have c: "check_progression progression_names
      [Array [1], Array [1 / 100], Array [1 / 100], Array [1 / 100], Array [1 / 100]] = Inr ()"
    by (simp add: progression_names_def)
  have b: "map_sum id (\<lambda>sim. map_of (readouts sim) ''symptomatic'')
       (SEIRPlusPlusSimulation_init_in (''InvalidParametersError'' # sampling_module)
          mit r serial amp peak ?kw) = Inr (Some (''infected'', Scalar (1 / 100)))"
    by (simp add: SEIRPlusPlusSimulation_init_in_def r import_from_def p c np_mul_def Let_def)
  from a r b show ?thesis by (intro conjI)
qed

text \<open>
  Claim C7 states that the constructor validates the probability cascade and raises the
  invalid-parameters error naming the offending probability.  With
  \<open>age_distribution = [1.0]\<close>, \<open>p_symptomatic = 0.5\<close> and \<open>ifr = 2\<close> the
  rescaled \<open>p_symptomatic\<close> is \<open>2\<close>, but the constructor raises
  \<open>ImportError\<close> before the validation loop; with \<open>InvalidParametersError\<close>
  defined in the module the same call raises the error naming \<open>p_symptomatic\<close>.
\<close>

theorem SEIRPlusPlusSimulation_init_cascade_import_error:
  "SEIRPlusPlusSimulation_init mit r serial amp peak
       \<lparr>age_distribution = [1], ifr = Some 2, p_symptomatic = Scalar (1 / 2),
        p_positive = Scalar 1, p_hospitalized = Scalar 1, p_critical = Scalar 1,
        p_dead = Scalar 1, all_dead_multiplier = 1\<rparr> = Inl ImportError
   \<and> rescale_p_symptomatic
       \<lparr>age_distribution = [1], ifr = Some 2, p_symptomatic = Scalar (1 / 2),
        p_positive = Scalar 1, p_hospitalized = Scalar 1, p_critical = Scalar 1,
        p_dead = Scalar 1, all_dead_multiplier = 1\<rparr> = Inr (Scalar 2)
   \<and> SEIRPlusPlusSimulation_init_in (''InvalidParametersError'' # sampling_module)
       mit r serial amp peak
       \<lparr>age_distribution = [1], ifr = Some 2, p_symptomatic = Scalar (1 / 2),
        p_positive = Scalar 1, p_hospitalized = Scalar 1, p_critical = Scalar 1,
        p_dead = Scalar 1, all_dead_multiplier = 1\<rparr>
       = Inl (InvalidParametersError ''p_symptomatic is too large'')"
proof -
  let ?kw = "\<lparr>age_distribution = [1], ifr = Some 2, p_symptomatic = Scalar (1 / 2),
        p_positive = Scalar 1, p_hospitalized = Scalar 1, p_critical = Scalar 1,
        p_dead = Scalar 1, all_dead_multiplier = 1\<rparr>"
  have r: "rescale_p_symptomatic ?kw = Inr (Scalar 2)"
    by (simp add: rescale_p_symptomatic_def weighted_sum_def np_mul_def)
  have a: "SEIRPlusPlusSimulation_init mit r serial amp peak ?kw = Inl ImportError"
    by (simp add: init_cases r)
  have p: "p_progression ?kw (Scalar 2) = Inr [Array [1], Array [2], Array [2], Array [2], Array [2]]"
    by (simp add: p_progression_def np_mul_def)
  have c: "check_progression progression_names [Array [1], Array [2], Array [2], Array [2], Array [2]]
    = Inl (InvalidParametersError ''p_symptomatic is too large'')"
    by (simp add: progression_names_def)
  have b: "SEIRPlusPlusSimulation_init_in (''InvalidParametersError'' # sampling_module)
       mit r serial amp peak ?kw = Inl (InvalidParametersError ''p_symptomatic is too large'')"
    by (simp add: SEIRPlusPlusSimulation_init_in_def r import_from_def p c)
  from a r b show ?thesis by (intro conjI)
qed

section \<open>The persistent backend: results\<close>

lemma denanify_nanify: "denanify (nanify x) = x"
  by (cases x) (simp_all add: nanify_def)

lemma read_fit_parameters_complete_TypeError:
  assumes "fit_parameters_group f = Some g"
    and "map_of g ''names'' = Some (Strings (n # ns))"
    and "map_of g ''bounds'' = Some (Pairs (b # bs))"
    and "map_of g ''guess'' = Some (Floats (x # xs))"
    and "map_of g ''uncertainty'' = Some (Floats (u # us))"
    and "map_of g ''sigma'' = Some (Floats (s # ss))"
  shows "read_fit_parameters f = Inl TypeError"
  using assms
  by (simp add: read_fit_parameters_def read_parameter_def read_dataset_def lookup_def
      index_def enumerate_eq_zip upt_conv_Cons del: upt_Suc)

text \<open>
  Claim C3 states that fixed values and fit parameters written to the backend read back
  unchanged.  Writing \<open>{'r0': 3.2}\<close> and
  \<open>[SampleParameter('beta', (0, 1), 0.5, 0.1)]\<close> to a new file raises
  \<open>AttributeError\<close> at \<open>par.sigma\<close>; reading the fit parameters from the file so
  left raises \<open>KeyError\<close> for the missing \<open>sigma\<close> array; and reading a file in
  which that array is present raises \<open>TypeError\<close>, since the reader passes one
  argument more than \<open>SampleParameter\<close> accepts.
\<close>

theorem HDFBackend_round_trip_fails:
  "snd (HDFBackend_init new_file
          (Some [\<lparr>name = ''beta'', bounds = (0, 1), guess = Some (1 / 2),
                  uncertainty = Some (1 / 10)\<rparr>])
          (Some [(''r0'', 16 / 5)]) None) = Some AttributeError
   \<and> read_fit_parameters
        (fst (HDFBackend_init new_file
          (Some [\<lparr>name = ''beta'', bounds = (0, 1), guess = Some (1 / 2),
                  uncertainty = Some (1 / 10)\<rparr>])
          (Some [(''r0'', 16 / 5)]) None)) = Inl KeyError
   \<and> read_fit_parameters
        \<lparr>fixed_values_group = Some [(''r0'', 16 / 5)],
         fit_parameters_group =
           Some [(''names'', Strings [''beta'']), (''bounds'', Pairs [(0, 1)]),
                 (''guess'', Floats [Fin (1 / 2)]), (''uncertainty'', Floats [Fin (1 / 10)]),
                 (''sigma'', Floats [NaN])],
         simulator_attr = None\<rparr> = Inl TypeError"
  by (simp add: HDFBackend_init_def write_fixed_values_def write_fit_parameters_def
      new_file_def SampleParameter_sigma_def read_fit_parameters_def read_parameter_def
      read_dataset_def lookup_def index_def)

end
